theory Spec2Isabelle
  imports Complex_Main
begin

section \<open>Numbers, errors and small vectors\<close>

text \<open>
  The two notebook classes \<open>LennardJones\<close> and \<open>ExportWrapper\<close> compute with Python
  floats and torch tensors. Arithmetic is modelled over the reals (rounding and overflow
  are left out), with one extra element for the single place where the floating-point
  result is not a real number: a torch division by a zero tensor raises nothing, it
  yields an infinity (or nan), and \<open>inf ** 12 - inf ** 6\<close> is nan, which every later
  operation propagates. Python's own float division and \<open>math.sqrt\<close>, used by the
  constructor, do raise; those raises are branches of the model. Where rounding decides
  a property, the lines concerned are evaluated a second time in binary64, in a section
  of their own.
\<close>

datatype error = IndexError | KeyError | ValueError | ZeroDivisionError | RuntimeError
  | OtherError string

datatype scalar = Num real | NaN

fun scalar_add :: "scalar \<Rightarrow> scalar \<Rightarrow> scalar" where
  "scalar_add (Num a) (Num b) = Num (a + b)"
| "scalar_add _ _ = NaN"

fun scalar_sub :: "scalar \<Rightarrow> scalar \<Rightarrow> scalar" where
  "scalar_sub (Num a) (Num b) = Num (a - b)"
| "scalar_sub _ _ = NaN"

type_synonym vec3 = "real \<times> real \<times> real"
type_synonym mat3 = "vec3 \<times> vec3 \<times> vec3"

fun vec_add :: "vec3 \<Rightarrow> vec3 \<Rightarrow> vec3" where
  "vec_add (a1, a2, a3) (b1, b2, b3) = (a1 + b1, a2 + b2, a3 + b3)"

fun vec_sub :: "vec3 \<Rightarrow> vec3 \<Rightarrow> vec3" where
  "vec_sub (a1, a2, a3) (b1, b2, b3) = (a1 - b1, a2 - b2, a3 - b3)"

fun dot :: "vec3 \<Rightarrow> vec3 \<Rightarrow> real" where
  "dot (a1, a2, a3) (b1, b2, b3) = a1 * b1 + a2 * b2 + a3 * b3"

text \<open>\<open>S.to(dtype=cell.dtype) @ cell\<close>: a row vector of three integers times the 3x3 cell,
  whose rows are the lattice vectors.\<close>

fun shift_matmul :: "int \<times> int \<times> int \<Rightarrow> mat3 \<Rightarrow> vec3" where
  "shift_matmul (sa, sb, sc) ((a1, a2, a3), (b1, b2, b3), (c1, c2, c3)) =
     (real_of_int sa * a1 + real_of_int sb * b1 + real_of_int sc * c1,
      real_of_int sa * a2 + real_of_int sb * b2 + real_of_int sc * c2,
      real_of_int sa * a3 + real_of_int sb * b3 + real_of_int sc * c3)"

section \<open>\<open>LennardJones.__init__\<close>: the table of pair parameters\<close>

text \<open>
  \<open>parameters\<close> is a \<open>Dict[int, Dict[str, float]]\<close>; it is an association list in
  iteration order, each value a record of the two entries \<open>"sigma"\<close> and \<open>"epsilon"\<close>
  the constructor reads. The stored value \<open>[sigma, epsilon, energy_at_cutoff]\<close> is a
  triple.
\<close>

record species_parameters =
  p_sigma :: real
  p_epsilon :: real

type_synonym lj_entry = "real \<times> real \<times> real"

text \<open>The body of the inner loop. \<open>math.sqrt\<close> raises ValueError on a negative argument,
  and the float division \<open>sigma / cutoff\<close> raises ZeroDivisionError, in this order.\<close>

definition combine :: "real \<Rightarrow> species_parameters \<Rightarrow> species_parameters \<Rightarrow> error + lj_entry" where
  "combine cutoff_arg p_i p_j =
     (let sigma_i = p_sigma p_i; epsilon_i = p_epsilon p_i;
          sigma_j = p_sigma p_j; epsilon_j = p_epsilon p_j;
          sigma = (sigma_i + sigma_j) / 2
      in if epsilon_i * epsilon_j < 0 then Inl ValueError
         else let epsilon = sqrt (epsilon_i * epsilon_j)
              in if cutoff_arg = 0 then Inl ZeroDivisionError
                 else let energy_at_cutoff =
                            4 * epsilon * ((sigma / cutoff_arg) ^ 12 - (sigma / cutoff_arg) ^ 6)
                      in Inr (sigma, epsilon, energy_at_cutoff))"

fun inner_loop :: "real \<Rightarrow> species_parameters \<Rightarrow> (int \<times> species_parameters) list
    \<Rightarrow> (int \<rightharpoonup> lj_entry) \<Rightarrow> error + (int \<rightharpoonup> lj_entry)" where
  "inner_loop cutoff_arg p_i [] row = Inr row"
| "inner_loop cutoff_arg p_i ((s_j, p_j) # rest) row =
     (case combine cutoff_arg p_i p_j of
        Inl e \<Rightarrow> Inl e
      | Inr entry \<Rightarrow> inner_loop cutoff_arg p_i rest (row(s_j \<mapsto> entry)))"

fun outer_loop :: "real \<Rightarrow> (int \<times> species_parameters) list
    \<Rightarrow> (int \<times> species_parameters) list
    \<Rightarrow> (int \<rightharpoonup> (int \<rightharpoonup> lj_entry)) \<Rightarrow> error + (int \<rightharpoonup> (int \<rightharpoonup> lj_entry))" where
  "outer_loop cutoff_arg parameters [] table = Inr table"
| "outer_loop cutoff_arg parameters ((s_i, p_i) # rest) table =
     (case inner_loop cutoff_arg p_i parameters Map.empty of
        Inl e \<Rightarrow> Inl e
      | Inr row \<Rightarrow> outer_loop cutoff_arg parameters rest (table(s_i \<mapsto> row)))"

record LennardJones =
  cutoff :: real
  neighbors_options :: "real \<times> bool"
  lj_params :: "int \<rightharpoonup> (int \<rightharpoonup> lj_entry)"

definition LennardJones_init :: "real \<Rightarrow> (int \<times> species_parameters) list
    \<Rightarrow> error + LennardJones" where
  "LennardJones_init cutoff_arg parameters =
     (case outer_loop cutoff_arg parameters parameters Map.empty of
        Inl e \<Rightarrow> Inl e
      | Inr table \<Rightarrow> Inr \<lparr>cutoff = cutoff_arg, neighbors_options = (cutoff_arg, False),
                           lj_params = table\<rparr>)"

definition requested_neighbors_lists :: "LennardJones \<Rightarrow> (real \<times> bool) list" where
  "requested_neighbors_lists self = [neighbors_options self]"

section \<open>Systems, run options and outputs\<close>

text \<open>
  A system carries the species column and the positions rows of its positions block, the
  cell, and the neighbours list the engine computed for the model's request: rows
  \<open>(first_atom, second_atom, cell_shift)\<close>. Atom indices are natural numbers; reading
  past the end of a tensor raises IndexError.
\<close>

type_synonym neighbor_pair = "nat \<times> nat \<times> (int \<times> int \<times> int)"

record System =
  species :: "int list"
  positions :: "vec3 list"
  cell :: mat3
  neighbors :: "neighbor_pair list"

record ModelRunOptions =
  outputs :: "string list"
  selected_atoms :: "int list option"

datatype Labels = Labels "string list" "int list list"

record TensorBlock =
  tb_values :: scalar
  tb_samples :: Labels
  tb_components :: "Labels list"
  tb_properties :: Labels

definition energy_block :: "scalar \<Rightarrow> TensorBlock" where
  "energy_block v = \<lparr>tb_values = v, tb_samples = Labels [''_''] [[0]],
                     tb_components = [], tb_properties = Labels [''energy''] [[0]]\<rparr>"

section \<open>\<open>LennardJones.forward\<close>\<close>

definition displacement :: "vec3 \<Rightarrow> vec3 \<Rightarrow> int \<times> int \<times> int \<Rightarrow> mat3 \<Rightarrow> vec3" where
  "displacement pos_i pos_j S cell_m = vec_add (vec_sub pos_j pos_i) (shift_matmul S cell_m)"

text \<open>\<open>4 * epsilon * ((sigma / r) ** 12 - (sigma / r) ** 6)\<close> on a 0-dimensional tensor
  \<open>r\<close>: nan when \<open>r\<close> is zero.\<close>

definition e_ij :: "real \<Rightarrow> real \<Rightarrow> real \<Rightarrow> scalar" where
  "e_ij sigma epsilon r =
     (if r = 0 then NaN else Num (4 * epsilon * ((sigma / r) ^ 12 - (sigma / r) ^ 6)))"

text \<open>One pass of the loop over pairs: the two table lookups, the distance, and the term
  added to \<open>total_energy\<close>.\<close>

fun pair_term :: "LennardJones \<Rightarrow> int list \<Rightarrow> vec3 list \<Rightarrow> mat3 \<Rightarrow> neighbor_pair
    \<Rightarrow> error + scalar" where
  "pair_term self species_col positions_rows cell_m (i, j, S) =
     (if length species_col \<le> i then Inl IndexError
      else (case lj_params self (species_col ! i) of
        None \<Rightarrow> Inl KeyError
      | Some row \<Rightarrow>
          (if length species_col \<le> j then Inl IndexError
           else (case row (species_col ! j) of
             None \<Rightarrow> Inl KeyError
           | Some (sigma, epsilon, shift) \<Rightarrow>
               (if length positions_rows \<le> j \<or> length positions_rows \<le> i
                then Inl IndexError
                else
                  (let distance =
                         displacement (positions_rows ! i) (positions_rows ! j) S cell_m;
                       r2 = dot distance distance;
                       r = sqrt r2
                   in Inr (scalar_sub (e_ij sigma epsilon r) (Num shift))))))))"

fun pair_loop :: "LennardJones \<Rightarrow> int list \<Rightarrow> vec3 list \<Rightarrow> mat3 \<Rightarrow> neighbor_pair list
    \<Rightarrow> scalar \<Rightarrow> error + scalar" where
  "pair_loop self species_col positions_rows cell_m [] total_energy = Inr total_energy"
| "pair_loop self species_col positions_rows cell_m (pair # rest) total_energy =
     (case pair_term self species_col positions_rows cell_m pair of
        Inl e \<Rightarrow> Inl e
      | Inr term \<Rightarrow>
          pair_loop self species_col positions_rows cell_m rest (scalar_add total_energy term))"

definition LennardJones_forward :: "LennardJones \<Rightarrow> System \<Rightarrow> ModelRunOptions
    \<Rightarrow> error + (string \<rightharpoonup> TensorBlock)" where
  "LennardJones_forward self system run_options =
     (if ''energy'' \<notin> set (outputs run_options) then Inr Map.empty
      else
        let all_pairs = neighbors system;
            cell_m = cell system;
            positions_rows = positions system;
            species_col = species system;
            selected = (case selected_atoms run_options of
                          None \<Rightarrow> map int [0 ..< length positions_rows]
                        | Some atoms \<Rightarrow> atoms)
        in case pair_loop self species_col positions_rows cell_m all_pairs (Num 0) of
             Inl e \<Rightarrow> Inl e
           | Inr total_energy \<Rightarrow> Inr [''energy'' \<mapsto> energy_block total_energy])"

section \<open>\<open>ExportWrapper.forward\<close>: baseline plus learned correction\<close>

text \<open>
  The learned model is a collaborator: a function of the system and the selected samples
  that raises or returns a tensor, given by its elements. \<open>reshape(1, 1)\<close> raises
  RuntimeError unless the tensor has exactly one element. Calling the collaborator is the
  one effect of the wrapper; the calls made are threaded through as a log. The conversion
  of the system for the learned model belongs to the collaborator, and the labels are
  built from the selected atoms as given (the run options are taken to be valid for the
  labels constructor).
\<close>

type_synonym nn_call = "System \<times> Labels option"

record ExportWrapper =
  lj :: LennardJones
  nn_model :: "System \<Rightarrow> Labels option \<Rightarrow> error + scalar list"

definition reshape_1_1 :: "scalar list \<Rightarrow> error + scalar" where
  "reshape_1_1 t = (case t of [v] \<Rightarrow> Inr v | _ \<Rightarrow> Inl RuntimeError)"

text \<open>\<open>None\<close> stays \<open>None\<close>; a list of atoms becomes the one-column labels \<open>"center"\<close>.\<close>

definition selected_samples_of :: "int list option \<Rightarrow> Labels option" where
  "selected_samples_of sel =
     (case sel of
        None \<Rightarrow> None
      | Some atoms \<Rightarrow> Some (Labels [''center''] (map (\<lambda>a. [a]) atoms)))"

definition ExportWrapper_forward :: "ExportWrapper \<Rightarrow> System \<Rightarrow> ModelRunOptions
    \<Rightarrow> nn_call list \<Rightarrow> (error + (string \<rightharpoonup> TensorBlock)) \<times> nn_call list" where
  "ExportWrapper_forward self system run_options calls =
     (if ''energy'' \<notin> set (outputs run_options) then (Inr Map.empty, calls)
      else (case LennardJones_forward (lj self) system run_options of
        Inl e \<Rightarrow> (Inl e, calls)
      | Inr outs \<Rightarrow>
          (case outs ''energy'' of
             None \<Rightarrow> (Inl KeyError, calls)
           | Some lj_energy \<Rightarrow>
               (let selected_samples = selected_samples_of (selected_atoms run_options);
                    calls' = calls @ [(system, selected_samples)]
                in (case nn_model self system selected_samples of
                      Inl e \<Rightarrow> (Inl e, calls')
                    | Inr nn_energy \<Rightarrow>
                        (case reshape_1_1 nn_energy of
                           Inl e \<Rightarrow> (Inl e, calls')
                         | Inr v \<Rightarrow>
                             (Inr [''energy'' \<mapsto>
                                     energy_block (scalar_add (tb_values lj_energy) v)],
                              calls')))))))"

section \<open>Reading the parameter dictionaries\<close>

text \<open>The value a dictionary holds for a key: with an association list in insertion
  order, the last binding.\<close>

definition dict_get :: "(int \<times> species_parameters) list \<Rightarrow> int \<Rightarrow> species_parameters option" where
  "dict_get parameters s = map_of (rev parameters) s"

text \<open>\<open>self._lj_params[s_i][s_j]\<close>, with \<open>None\<close> for a missing key.\<close>

definition lj_lookup :: "LennardJones \<Rightarrow> int \<Rightarrow> int \<Rightarrow> lj_entry option" where
  "lj_lookup self s_i s_j =
     (case lj_params self s_i of None \<Rightarrow> None | Some row \<Rightarrow> row s_j)"

text \<open>The separation \<open>r\<close> the loop computes for a pair.\<close>

fun pair_distance :: "vec3 list \<Rightarrow> mat3 \<Rightarrow> neighbor_pair \<Rightarrow> real" where
  "pair_distance positions_rows cell_m (i, j, S) =
     (let distance = displacement (positions_rows ! i) (positions_rows ! j) S cell_m
      in sqrt (dot distance distance))"

text \<open>A pair the loop can evaluate: indices inside the system, both species configured.\<close>

fun readable_pair :: "(int \<times> species_parameters) list \<Rightarrow> System \<Rightarrow> neighbor_pair \<Rightarrow> bool" where
  "readable_pair parameters system (i, j, S) =
     (i < length (species system) \<and> j < length (species system)
      \<and> i < length (positions system) \<and> j < length (positions system)
      \<and> dict_get parameters (species system ! i) \<noteq> None
      \<and> dict_get parameters (species system ! j) \<noteq> None)"

fun indices_in_range :: "System \<Rightarrow> neighbor_pair \<Rightarrow> bool" where
  "indices_in_range system (i, j, S) =
     (i < length (species system) \<and> j < length (species system)
      \<and> i < length (positions system) \<and> j < length (positions system))"

fun unsupported_pair :: "(int \<times> species_parameters) list \<Rightarrow> System \<Rightarrow> neighbor_pair \<Rightarrow> bool" where
  "unsupported_pair parameters system (i, j, S) =
     (dict_get parameters (species system ! i) = None
      \<or> dict_get parameters (species system ! j) = None)"

section \<open>The pair energy as the specification words it\<close>

text \<open>
  The specification's description of the evaluation, written independently of the code:
  the displacement is \<open>position[j] - position[i]\<close> plus integer multiples of the three
  lattice vectors, \<open>r\<close> is its Euclidean norm, the parameters follow the
  Lorentz-Berthelot rules, and the term is the shifted Lennard-Jones energy.
\<close>

fun scale :: "int \<Rightarrow> vec3 \<Rightarrow> vec3" where
  "scale n (x, y, z) = (real_of_int n * x, real_of_int n * y, real_of_int n * z)"

fun spec_displacement :: "vec3 \<Rightarrow> vec3 \<Rightarrow> int \<times> int \<times> int \<Rightarrow> mat3 \<Rightarrow> vec3" where
  "spec_displacement pos_i pos_j (na, nb, nc) (a, b, c) =
     vec_add (vec_sub pos_j pos_i) (vec_add (vec_add (scale na a) (scale nb b)) (scale nc c))"

fun euclidean_norm :: "vec3 \<Rightarrow> real" where
  "euclidean_norm (x, y, z) = sqrt (x\<^sup>2 + y\<^sup>2 + z\<^sup>2)"

definition spec_sigma :: "species_parameters \<Rightarrow> species_parameters \<Rightarrow> real" where
  "spec_sigma p_i p_j = (p_sigma p_i + p_sigma p_j) / 2"

definition spec_epsilon :: "species_parameters \<Rightarrow> species_parameters \<Rightarrow> real" where
  "spec_epsilon p_i p_j = sqrt (p_epsilon p_i * p_epsilon p_j)"

definition lennard_jones :: "real \<Rightarrow> real \<Rightarrow> real \<Rightarrow> real" where
  "lennard_jones sigma epsilon r = 4 * epsilon * ((sigma / r) ^ 12 - (sigma / r) ^ 6)"

definition spec_shift :: "real \<Rightarrow> species_parameters \<Rightarrow> species_parameters \<Rightarrow> real" where
  "spec_shift r_c p_i p_j = lennard_jones (spec_sigma p_i p_j) (spec_epsilon p_i p_j) r_c"

definition spec_pair_energy :: "real \<Rightarrow> species_parameters \<Rightarrow> species_parameters
    \<Rightarrow> vec3 \<Rightarrow> vec3 \<Rightarrow> int \<times> int \<times> int \<Rightarrow> mat3 \<Rightarrow> real" where
  "spec_pair_energy r_c p_i p_j pos_i pos_j S cell_m =
     (let r = euclidean_norm (spec_displacement pos_i pos_j S cell_m)
      in lennard_jones (spec_sigma p_i p_j) (spec_epsilon p_i p_j) r - spec_shift r_c p_i p_j)"

fun spec_term :: "real \<Rightarrow> (int \<times> species_parameters) list \<Rightarrow> System \<Rightarrow> neighbor_pair \<Rightarrow> real" where
  "spec_term r_c parameters system (i, j, S) =
     spec_pair_energy r_c
       (the (dict_get parameters (species system ! i)))
       (the (dict_get parameters (species system ! j)))
       (positions system ! i) (positions system ! j) S (cell system)"

section \<open>The same lines in binary64\<close>

text \<open>
  The constructor computes with Python floats and \<open>forward\<close> with float64 tensors. To
  see what the two sequences of operations return, both are also evaluated in binary64:
  every operation returns its exact result rounded to the nearest double, ties to even.
  \<open>f64\<close> is that rounding on the normal range; it is \<open>None\<close> for a result beyond that
  range (an overflow or a subnormal), about which this evaluation says nothing. A power
  is rounded once. A Python float divided by a tensor is, in torch, the reciprocal of the
  tensor times the float, which is how \<open>forward\<close> gets \<open>sigma / r\<close>; the constructor's
  \<open>sigma / cutoff\<close> is one float division.
\<close>

definition pow2 :: "int \<Rightarrow> real" where
  "pow2 e = (if 0 \<le> e then 2 ^ nat e else 1 / 2 ^ nat (- e))"

definition round_half_even :: "real \<Rightarrow> int" where
  "round_half_even x =
     (let f = \<lfloor>x\<rfloor>; d = x - of_int f
      in if d < 1 / 2 then f else if 1 / 2 < d then f + 1 else if even f then f else f + 1)"

text \<open>Scale a positive number into \<open>[2 ^ 52, 2 ^ 53)\<close>, counting the binary exponent.\<close>

fun normalise :: "nat \<Rightarrow> real \<Rightarrow> int \<Rightarrow> (real \<times> int) option" where
  "normalise 0 m e = None"
| "normalise (Suc fuel) m e =
     (if m < 2 ^ 52 then normalise fuel (2 * m) (e - 1)
      else if 2 ^ 53 \<le> m then normalise fuel (m / 2) (e + 1)
      else Some (m, e))"

definition f64 :: "real \<Rightarrow> real option" where
  "f64 x =
     (if x = 0 then Some 0
      else (case normalise 2200 \<bar>x\<bar> 0 of
              None \<Rightarrow> None
            | Some (m, e) \<Rightarrow>
                (let y = of_int (round_half_even m) * pow2 e
                 in if e < - 1074 \<or> 2 ^ 1024 \<le> y then None else Some (sgn x * y))))"

definition add_f64 :: "real \<Rightarrow> real \<Rightarrow> real option" where
  "add_f64 x y = f64 (x + y)"

definition sub_f64 :: "real \<Rightarrow> real \<Rightarrow> real option" where
  "sub_f64 x y = f64 (x - y)"

definition mul_f64 :: "real \<Rightarrow> real \<Rightarrow> real option" where
  "mul_f64 x y = f64 (x * y)"

definition div_f64 :: "real \<Rightarrow> real \<Rightarrow> real option" where
  "div_f64 x y = (if y = 0 then None else f64 (x / y))"

definition pow_f64 :: "real \<Rightarrow> nat \<Rightarrow> real option" where
  "pow_f64 x n = f64 (x ^ n)"

definition sqrt_f64 :: "real \<Rightarrow> real option" where
  "sqrt_f64 x = (if x < 0 then None else f64 (sqrt x))"

text \<open>The body of the constructor's inner loop, operation by operation.\<close>

definition combine_f64 :: "real \<Rightarrow> species_parameters \<Rightarrow> species_parameters
    \<Rightarrow> (error + lj_entry) option" where
  "combine_f64 cutoff_arg p_i p_j =
     Option.bind (add_f64 (p_sigma p_i) (p_sigma p_j)) (\<lambda>sigma_sum.
     Option.bind (div_f64 sigma_sum 2) (\<lambda>sigma.
     Option.bind (mul_f64 (p_epsilon p_i) (p_epsilon p_j)) (\<lambda>epsilon_product.
       if epsilon_product < 0 then Some (Inl ValueError)
       else
     Option.bind (sqrt_f64 epsilon_product) (\<lambda>epsilon.
     Option.bind (mul_f64 4 epsilon) (\<lambda>four_epsilon.
       if cutoff_arg = 0 then Some (Inl ZeroDivisionError)
       else
     Option.bind (div_f64 sigma cutoff_arg) (\<lambda>quotient.
     Option.bind (pow_f64 quotient 12) (\<lambda>p12.
     Option.bind (pow_f64 quotient 6) (\<lambda>p6.
     Option.bind (sub_f64 p12 p6) (\<lambda>difference.
     Option.bind (mul_f64 four_epsilon difference) (\<lambda>energy_at_cutoff.
       Some (Inr (sigma, epsilon, energy_at_cutoff))))))))))))"

text \<open>The loop body of \<open>forward\<close> from \<open>e_ij = ...\<close> on, for a pair at separation \<open>r\<close>:
  the value of \<open>e_ij - shift\<close>.\<close>

definition pair_energy_f64 :: "real \<Rightarrow> real \<Rightarrow> real \<Rightarrow> real \<Rightarrow> real option" where
  "pair_energy_f64 sigma epsilon shift r =
     Option.bind (mul_f64 4 epsilon) (\<lambda>four_epsilon.
     Option.bind (div_f64 1 r) (\<lambda>reciprocal.
     Option.bind (mul_f64 reciprocal sigma) (\<lambda>quotient.
     Option.bind (pow_f64 quotient 12) (\<lambda>p12.
     Option.bind (pow_f64 quotient 6) (\<lambda>p6.
     Option.bind (sub_f64 p12 p6) (\<lambda>difference.
     Option.bind (mul_f64 four_epsilon difference) (\<lambda>e_ij.
       sub_f64 e_ij shift)))))))"

section \<open>Example data\<close>

text \<open>A potential for two species, codes 1 and 6, with cutoff 2, and the table its
  construction yields.\<close>

definition example_parameters :: "(int \<times> species_parameters) list" where
  "example_parameters = [(1, \<lparr>p_sigma = 2, p_epsilon = 1\<rparr>), (6, \<lparr>p_sigma = 4, p_epsilon = 1\<rparr>)]"

definition example_lj :: LennardJones where
  "example_lj = \<lparr>cutoff = 2, neighbors_options = (2, False),
                 lj_params = [1 \<mapsto> [1 \<mapsto> (2, 1, 0), 6 \<mapsto> (3, 1, 484785 / 1024)],
                              6 \<mapsto> [1 \<mapsto> (3, 1, 484785 / 1024), 6 \<mapsto> (4, 1, 16128)]]\<rparr>"

definition zero_cell :: mat3 where
  "zero_cell = ((0, 0, 0), (0, 0, 0), (0, 0, 0))"

definition energy_options :: ModelRunOptions where
  "energy_options = \<lparr>outputs = [''energy''], selected_atoms = None\<rparr>"

text \<open>Two atoms one unit apart in a cubic cell of side 3; the second pair reaches the
  neighbour through the periodic image and has separation 2, the cutoff.\<close>

definition example_system :: System where
  "example_system = \<lparr>species = [1, 6], positions = [(0, 0, 0), (1, 0, 0)],
                      cell = ((3, 0, 0), (0, 3, 0), (0, 0, 3)),
                      neighbors = [(0, 1, (0, 0, 0)), (0, 1, (-1, 0, 0))]\<rparr>"

text \<open>Two atoms at the same position, listed as a pair.\<close>

definition overlap_system :: System where
  "overlap_system = \<lparr>species = [1, 1], positions = [(0, 0, 0), (0, 0, 0)],
                      cell = zero_cell, neighbors = [(0, 1, (0, 0, 0))]\<rparr>"

text \<open>An atom of species 99, which the example potential does not know, beyond the
  cutoff of the only other atom: the neighbours list is empty.\<close>

definition foreign_system :: System where
  "foreign_system = \<lparr>species = [1, 99], positions = [(0, 0, 0), (9, 0, 0)],
                      cell = zero_cell, neighbors = []\<rparr>"

text \<open>The same two atoms one unit apart, so that the pair is listed.\<close>

definition foreign_pair_system :: System where
  "foreign_pair_system = \<lparr>species = [1, 99], positions = [(0, 0, 0), (1, 0, 0)],
                           cell = zero_cell, neighbors = [(0, 1, (0, 0, 0))]\<rparr>"

text \<open>Wrappers around four learned models: one that returns 5, one that returns nan,
  one that returns a two-element tensor, one that raises.\<close>

definition constant_wrapper :: ExportWrapper where
  "constant_wrapper = \<lparr>lj = example_lj, nn_model = (\<lambda>system selected. Inr [Num 5])\<rparr>"

definition nan_wrapper :: ExportWrapper where
  "nan_wrapper = \<lparr>lj = example_lj, nn_model = (\<lambda>system selected. Inr [NaN])\<rparr>"

definition vector_wrapper :: ExportWrapper where
  "vector_wrapper = \<lparr>lj = example_lj, nn_model = (\<lambda>system selected. Inr [Num 1, Num 2])\<rparr>"

definition raising_wrapper :: ExportWrapper where
  "raising_wrapper =
     \<lparr>lj = example_lj, nn_model = (\<lambda>system selected. Inl (OtherError ''descriptor failed''))\<rparr>"

text \<open>Run options: one that asks for another output, one that selects atom 1.\<close>

definition forces_options :: ModelRunOptions where
  "forces_options = \<lparr>outputs = [''forces''], selected_atoms = Some [1]\<rparr>"

definition selected_options :: ModelRunOptions where
  "selected_options = \<lparr>outputs = [''energy''], selected_atoms = Some [1]\<rparr>"

section \<open>The table built by the constructor\<close>

lemma combine_commute: "combine c p_i p_j = combine c p_j p_i"
  by (simp add: combine_def Let_def mult.commute add.commute)

lemma inner_loop_lookup:
  "inner_loop c p_i ps row = Inr row' \<Longrightarrow>
   row' s = (case map_of (rev ps) s of
               None \<Rightarrow> row s
             | Some p_j \<Rightarrow> (case combine c p_i p_j of Inr e \<Rightarrow> Some e | Inl x \<Rightarrow> None))"
proof (induction ps arbitrary: row)
  case Nil
  then show ?case by simp
next
  case (Cons a ps)
  obtain s_j p_j where a: "a = (s_j, p_j)" by (cases a)
  from Cons.prems a obtain entry where
    e: "combine c p_i p_j = Inr entry" and
    r: "inner_loop c p_i ps (row(s_j \<mapsto> entry)) = Inr row'"
    by (auto split: sum.splits)
  from Cons.IH[OF r] e a show ?case
    by (auto simp: map_add_def split: option.splits)
qed

lemma inner_loop_combine_ok:
  "inner_loop c p_i ps row = Inr row' \<Longrightarrow> (s, p_j) \<in> set ps
   \<Longrightarrow> \<exists>e. combine c p_i p_j = Inr e"
  by (induction ps arbitrary: row) (auto split: sum.splits)

lemma outer_loop_lookup:
  "outer_loop c all ps table = Inr table' \<Longrightarrow>
   table' s = (case map_of (rev ps) s of
                 None \<Rightarrow> table s
               | Some p_i \<Rightarrow>
                   (case inner_loop c p_i all Map.empty of Inr r \<Rightarrow> Some r | Inl x \<Rightarrow> None))"
proof (induction ps arbitrary: table)
  case Nil
  then show ?case by simp
next
  case (Cons a ps)
  obtain s_i p_i where a: "a = (s_i, p_i)" by (cases a)
  from Cons.prems a obtain row where
    e: "inner_loop c p_i all Map.empty = Inr row" and
    r: "outer_loop c all ps (table(s_i \<mapsto> row)) = Inr table'"
    by (auto split: sum.splits)
  from Cons.IH[OF r] e a show ?case
    by (auto simp: map_add_def split: option.splits)
qed

lemma outer_loop_inner_ok:
  "outer_loop c all ps table = Inr table' \<Longrightarrow> (s, p_i) \<in> set ps
   \<Longrightarrow> \<exists>r. inner_loop c p_i all Map.empty = Inr r"
  by (induction ps arbitrary: table) (auto split: sum.splits)

lemma dict_get_mem: "dict_get parameters s = Some p \<Longrightarrow> (s, p) \<in> set parameters"
  by (auto simp: dict_get_def dest: map_of_SomeD)

lemma dict_get_None_iff: "dict_get parameters s = None \<longleftrightarrow> s \<notin> fst ` set parameters"
  by (simp add: dict_get_def map_of_eq_None_iff)

text \<open>Every stored entry is the combination of the parameters of its two species.\<close>

lemma init_entry_sound:
  assumes "LennardJones_init c ps = Inr pot"
    and "lj_params pot s_i = Some row" and "row s_j = Some entry"
  shows "\<exists>p_i p_j. dict_get ps s_i = Some p_i \<and> dict_get ps s_j = Some p_j
           \<and> combine c p_i p_j = Inr entry"
proof -
  from assms(1) obtain table where
    t: "outer_loop c ps ps Map.empty = Inr table" and pot: "lj_params pot = table"
    by (auto simp: LennardJones_init_def split: sum.splits)
  from outer_loop_lookup[OF t, of s_i] assms(2) pot obtain p_i where
    pi: "dict_get ps s_i = Some p_i" and ri: "inner_loop c p_i ps Map.empty = Inr row"
    by (auto simp: dict_get_def split: option.splits sum.splits)
  from inner_loop_lookup[OF ri, of s_j] assms(3) obtain p_j where
    "dict_get ps s_j = Some p_j" and "combine c p_i p_j = Inr entry"
    by (auto simp: dict_get_def split: option.splits sum.splits)
  with pi show ?thesis by blast
qed

text \<open>Every pair of configured species has an entry.\<close>

lemma init_entry_complete:
  assumes "LennardJones_init c ps = Inr pot"
    and "dict_get ps s_i = Some p_i" and "dict_get ps s_j = Some p_j"
  shows "\<exists>row entry. lj_params pot s_i = Some row \<and> row s_j = Some entry
           \<and> combine c p_i p_j = Inr entry"
proof -
  from assms(1) obtain table where
    t: "outer_loop c ps ps Map.empty = Inr table" and pot: "lj_params pot = table"
    by (auto simp: LennardJones_init_def split: sum.splits)
  from outer_loop_inner_ok[OF t dict_get_mem[OF assms(2)]] obtain row where
    ri: "inner_loop c p_i ps Map.empty = Inr row" by blast
  from inner_loop_combine_ok[OF ri dict_get_mem[OF assms(3)]] obtain entry where
    e: "combine c p_i p_j = Inr entry" by blast
  from outer_loop_lookup[OF t, of s_i] assms(2) ri pot have "lj_params pot s_i = Some row"
    by (simp add: dict_get_def)
  moreover from inner_loop_lookup[OF ri, of s_j] assms(3) e have "row s_j = Some entry"
    by (simp add: dict_get_def)
  ultimately show ?thesis using e by blast
qed

lemma lj_lookup_eq:
  assumes "LennardJones_init c ps = Inr pot"
  shows "lj_lookup pot s_i s_j =
           (case (dict_get ps s_i, dict_get ps s_j) of
              (Some p_i, Some p_j) \<Rightarrow>
                 (case combine c p_i p_j of Inr e \<Rightarrow> Some e | Inl x \<Rightarrow> None)
            | _ \<Rightarrow> None)"
proof (cases "lj_lookup pot s_i s_j")
  case None
  show ?thesis
  proof (cases "dict_get ps s_i")
    case ni: None
    then show ?thesis using None by simp
  next
    case si: (Some p_i)
    show ?thesis
    proof (cases "dict_get ps s_j")
      case nj: None
      then show ?thesis using None si by simp
    next
      case sj: (Some p_j)
      from init_entry_complete[OF assms si sj] None show ?thesis
        by (auto simp: lj_lookup_def)
    qed
  qed
next
  case (Some entry)
  then obtain row where "lj_params pot s_i = Some row" and "row s_j = Some entry"
    by (auto simp: lj_lookup_def split: option.splits)
  from init_entry_sound[OF assms this] Some show ?thesis by auto
qed

lemma init_cutoff: "LennardJones_init c ps = Inr pot \<Longrightarrow> cutoff pot = c"
  by (auto simp: LennardJones_init_def split: sum.splits)

lemma example_init: "LennardJones_init 2 example_parameters = Inr example_lj"
  by (simp add: LennardJones_init_def example_parameters_def example_lj_def combine_def
      power_divide)

section \<open>Symmetry of the table\<close>

text \<open>
  Claim C4. Swapping the two species labels of a pair leaves the stored entry
  \<open>(sigma, epsilon, energy_at_cutoff)\<close> unchanged: in a table that the constructor built,
  the lookup for \<open>(s_i, s_j)\<close> and the lookup for \<open>(s_j, s_i)\<close> give the same result, and
  for two species of the configured parameter mapping that result is an entry.
\<close>

theorem lj_params_symmetric:
  assumes "LennardJones_init c ps = Inr pot"
  shows "lj_lookup pot s_i s_j = lj_lookup pot s_j s_i
         \<and> (s_i \<in> fst ` set ps \<and> s_j \<in> fst ` set ps \<longrightarrow> lj_lookup pot s_i s_j \<noteq> None)"
proof
  show "lj_lookup pot s_i s_j = lj_lookup pot s_j s_i"
    unfolding lj_lookup_eq[OF assms]
    by (simp add: combine_commute[of c] split: option.splits)
next
  show "s_i \<in> fst ` set ps \<and> s_j \<in> fst ` set ps \<longrightarrow> lj_lookup pot s_i s_j \<noteq> None"
  proof
    assume a: "s_i \<in> fst ` set ps \<and> s_j \<in> fst ` set ps"
    then obtain p_i p_j where "dict_get ps s_i = Some p_i" and "dict_get ps s_j = Some p_j"
      using dict_get_None_iff[of ps s_i] dict_get_None_iff[of ps s_j] by auto
    from init_entry_complete[OF assms this] show "lj_lookup pot s_i s_j \<noteq> None"
      by (auto simp: lj_lookup_def)
  qed
qed

theorem lj_params_symmetric_witness:
  "LennardJones_init 2 example_parameters = Inr example_lj
   \<and> lj_lookup example_lj 1 6 = lj_lookup example_lj 6 1
   \<and> lj_lookup example_lj 1 6 = Some (3, 1, 484785 / 1024)"
  using lj_params_symmetric[OF example_init, of 1 6]
  by (simp add: example_init lj_lookup_def example_lj_def)

section \<open>The shift at the cutoff\<close>

lemma combine_InrD:
  "combine c p_i p_j = Inr (sigma, epsilon, shift) \<Longrightarrow>
     c \<noteq> 0 \<and> sigma = spec_sigma p_i p_j \<and> epsilon = spec_epsilon p_i p_j
     \<and> shift = 4 * epsilon * ((sigma / c) ^ 12 - (sigma / c) ^ 6)"
  by (auto simp: combine_def Let_def spec_sigma_def spec_epsilon_def split: if_splits)

lemma pair_term_entry:
  assumes "i < length sp" "j < length sp" "i < length pos" "j < length pos"
    and "lj_lookup pot (sp ! i) (sp ! j) = Some (sigma, epsilon, shift)"
  shows "pair_term pot sp pos cell_m (i, j, S) =
           Inr (scalar_sub (e_ij sigma epsilon (pair_distance pos cell_m (i, j, S))) (Num shift))"
  using assms by (auto simp: lj_lookup_def Let_def split: option.splits)

text \<open>
  Claim C1, as the code has it. For every entry \<open>(sigma, epsilon, shift)\<close> of a table the
  constructor built with cutoff \<open>c\<close>, the stored shift is the formula
  \<open>4 * epsilon * ((sigma / c) ^ 12 - (sigma / c) ^ 6)\<close>, and in exact arithmetic a pair of
  atoms of these two species whose separation equals the cutoff contributes zero to the
  energy: the shift cancels the raw Lennard-Jones term. In binary64 the two are computed
  by different operations and the contribution need not be zero, as shown below.
\<close>

theorem shift_cancels_at_cutoff:
  assumes "LennardJones_init c ps = Inr pot"
    and "i < length sp" "j < length sp" "i < length pos" "j < length pos"
    and "lj_lookup pot (sp ! i) (sp ! j) = Some (sigma, epsilon, shift)"
    and "pair_distance pos cell_m (i, j, S) = c"
  shows "shift = 4 * epsilon * ((sigma / c) ^ 12 - (sigma / c) ^ 6)
         \<and> pair_term pot sp pos cell_m (i, j, S) = Inr (Num 0)"
proof -
  from assms(6) obtain row where "lj_params pot (sp ! i) = Some row"
    and "row (sp ! j) = Some (sigma, epsilon, shift)"
    by (auto simp: lj_lookup_def split: option.splits)
  from init_entry_sound[OF assms(1) this] obtain p_i p_j where
    "combine c p_i p_j = Inr (sigma, epsilon, shift)" by blast
  from combine_InrD[OF this] have c: "c \<noteq> 0"
    and s: "shift = 4 * epsilon * ((sigma / c) ^ 12 - (sigma / c) ^ 6)" by simp_all
  have "pair_term pot sp pos cell_m (i, j, S) = Inr (scalar_sub (e_ij sigma epsilon c) (Num shift))"
    using pair_term_entry[OF assms(2-6), of cell_m S] assms(7) by simp
  with c s show ?thesis by (simp add: e_ij_def)
qed

text \<open>
  The second pair of the example system, through the periodic image, sits at the cutoff.
\<close>

theorem shift_cancels_at_cutoff_witness:
  "LennardJones_init 2 example_parameters = Inr example_lj
   \<and> lj_lookup example_lj ([1, 6] ! 0) ([1, 6] ! 1) = Some (3, 1, 484785 / 1024)
   \<and> pair_distance [(0, 0, 0), (1, 0, 0)] ((3, 0, 0), (0, 3, 0), (0, 0, 3)) (0, 1, (-1, 0, 0)) = 2
   \<and> pair_term example_lj [1, 6] [(0, 0, 0), (1, 0, 0)] ((3, 0, 0), (0, 3, 0), (0, 0, 3))
        (0, 1, (-1, 0, 0)) = Inr (Num 0)"
proof -
  have l: "lj_lookup example_lj ([1, 6] ! 0) ([1, 6] ! 1) = Some (3, 1, 484785 / 1024)"
    by (simp add: lj_lookup_def example_lj_def)
  have d: "pair_distance [(0, 0, 0), (1, 0, 0)] ((3, 0, 0), (0, 3, 0), (0, 0, 3))
             (0, 1, (-1, 0, 0)) = 2"
    by (simp add: displacement_def)
  from shift_cancels_at_cutoff[OF example_init _ _ _ _ l d] example_init l d
  show ?thesis by simp
qed

section \<open>Rounding to binary64\<close>

lemma pow2_powr: "pow2 e = 2 powr (of_int e)"
  by (simp add: pow2_def powr_int)

lemma pow2_pos: "0 < pow2 e"
  by (simp add: pow2_powr)

lemma pow2_add: "pow2 (a + b) = pow2 a * pow2 b"
  by (simp add: pow2_powr powr_add)

lemma pow2_mono: "a \<le> b \<Longrightarrow> pow2 a \<le> pow2 b"
  by (simp add: pow2_powr)

lemma normalise_reaches:
  assumes M: "2 ^ 52 \<le> M" "M < 2 ^ 53"
  shows "nat \<bar>E - e\<bar> < fuel \<Longrightarrow> m * pow2 e = M * pow2 E
         \<Longrightarrow> normalise fuel m e = Some (M, E)"
proof (induction fuel arbitrary: m e)
  case 0
  then show ?case by simp
next
  case (Suc fuel)
  have m: "m = M * pow2 (E - e)"
  proof -
    have "pow2 E = pow2 (E - e) * pow2 e" using pow2_add[of "E - e" e] by simp
    with Suc.prems(2) have "m * pow2 e = (M * pow2 (E - e)) * pow2 e" by simp
    with pow2_pos[of e] show ?thesis by simp
  qed
  consider (eq) "e = E" | (gt) "E < e" | (lt) "e < E" by linarith
  then show ?case
  proof cases
    case eq
    with m have "m = M" by (simp add: pow2_def)
    with M eq show ?thesis by simp
  next
    case gt
    then have "pow2 (E - e) \<le> pow2 (- 1)" by (intro pow2_mono) simp
    then have "pow2 (E - e) \<le> 1 / 2" by (simp add: pow2_def)
    with M have "M * pow2 (E - e) \<le> M * (1 / 2)"
      by (intro mult_left_mono) auto
    also from M have "M * (1 / 2) < 2 ^ 52" by simp
    finally have lt: "m < 2 ^ 52" by (simp only: m)
    have "(2 * m) * pow2 (e - 1) = M * pow2 E"
      using Suc.prems(2) pow2_add[of "e - 1" 1] by (simp add: pow2_def)
    moreover from gt Suc.prems(1) have "nat \<bar>E - (e - 1)\<bar> < fuel" by simp
    ultimately have "normalise fuel (2 * m) (e - 1) = Some (M, E)" by (rule Suc.IH[rotated])
    with lt show ?thesis by simp
  next
    case lt
    then have "pow2 1 \<le> pow2 (E - e)" by (intro pow2_mono) simp
    then have "2 \<le> pow2 (E - e)" by (simp add: pow2_def)
    with M have "M * 2 \<le> M * pow2 (E - e)"
      by (intro mult_left_mono) auto
    moreover from M have "2 ^ 53 \<le> M * 2" by simp
    ultimately have ge: "2 ^ 53 \<le> m" by (simp only: m)
    have "(m / 2) * pow2 (e + 1) = M * pow2 E"
      using Suc.prems(2) pow2_add[of e 1] by (simp add: pow2_def)
    moreover from lt Suc.prems(1) have "nat \<bar>E - (e + 1)\<bar> < fuel" by simp
    ultimately have "normalise fuel (m / 2) (e + 1) = Some (M, E)" by (rule Suc.IH[rotated])
    with ge show ?thesis by simp
  qed
qed

lemma f64_normal:
  assumes "x \<noteq> 0"
    and "2 ^ 52 \<le> \<bar>x\<bar> / pow2 e" and "\<bar>x\<bar> / pow2 e < 2 ^ 53"
    and "- 1074 \<le> e" and "e \<le> 970"
    and "round_half_even (\<bar>x\<bar> / pow2 e) = k"
  shows "f64 x = Some (sgn x * (of_int k * pow2 e))"
proof -
  let ?M = "\<bar>x\<bar> / pow2 e"
  have "\<bar>x\<bar> * pow2 0 = ?M * pow2 e" using pow2_pos[of e] by (simp add: pow2_def)
  moreover from assms(4,5) have "nat \<bar>e - 0\<bar> < 2200" by simp
  ultimately have n: "normalise 2200 \<bar>x\<bar> 0 = Some (?M, e)"
    using normalise_reaches[OF assms(2,3)] by blast
  have "of_int k \<le> (2::real) ^ 53"
  proof -
    have a: "\<lfloor>?M\<rfloor> < 9007199254740992" using assms(3) by (simp add: floor_less_iff)
    have b: "round_half_even ?M \<le> \<lfloor>?M\<rfloor> + 1"
      by (simp add: round_half_even_def Let_def)
    from a b assms(6) have "k \<le> 9007199254740992" by linarith
    then have "real_of_int k \<le> 9007199254740992" by simp
    then show ?thesis by simp
  qed
  moreover have "pow2 e \<le> pow2 970" using assms(5) by (rule pow2_mono)
  ultimately have "of_int k * pow2 e \<le> 2 ^ 53 * pow2 970"
    using pow2_pos[of e] by (intro mult_mono) auto
  also have "\<dots> < 2 ^ 1024" by (simp add: pow2_def flip: power_add)
  finally have "\<not> (2 ^ 1024 \<le> of_int k * pow2 e)" by simp
  with n assms(1,4,6) show ?thesis by (simp add: f64_def)
qed

text \<open>
  The roundings of one evaluation: the constructor for one species with \<open>sigma = 2.32\<close>
  and \<open>epsilon = 1.0\<close> and cutoff \<open>6.0\<close>, then the loop body of \<open>forward\<close> for a pair of
  that species at separation \<open>6.0\<close>. Each is checked against the exact result by
  \<open>f64_normal\<close>.
\<close>

lemma f64_literal: "f64 (58 / 25) = Some (5224175567749775 / 2251799813685248)"
  by (subst f64_normal[where e = "- 51" and k = 5224175567749775])
     (simp_all add: pow2_def round_half_even_def)

lemma f64_sqrt_one: "sqrt_f64 1 = Some 1"
  unfolding sqrt_f64_def
  by (subst f64_normal[where e = "- 52" and k = 4503599627370496])
     (simp_all add: pow2_def round_half_even_def)

lemma init_sum: "add_f64 (5224175567749775 / 2251799813685248) (5224175567749775 / 2251799813685248) = Some (5224175567749775 / 1125899906842624)"
  unfolding add_f64_def
  by (subst f64_normal[where e = "- 50" and k = 5224175567749775])
     (simp_all add: pow2_def round_half_even_def power_divide)

lemma init_sigma: "div_f64 (5224175567749775 / 1125899906842624) 2 = Some (5224175567749775 / 2251799813685248)"
  unfolding div_f64_def
  by (subst f64_normal[where e = "- 51" and k = 5224175567749775])
     (simp_all add: pow2_def round_half_even_def power_divide)

lemma init_prod: "mul_f64 1 1 = Some 1"
  unfolding mul_f64_def
  by (subst f64_normal[where e = "- 52" and k = 4503599627370496])
     (simp_all add: pow2_def round_half_even_def power_divide)

lemma init_q: "div_f64 (5224175567749775 / 2251799813685248) 6 = Some (6965567423666367 / 18014398509481984)"
  unfolding div_f64_def
  by (subst f64_normal[where e = "- 54" and k = 6965567423666367])
     (simp_all add: pow2_def round_half_even_def power_divide)

lemma init_p12: "pow_f64 (6965567423666367 / 18014398509481984) 12 = Some (3296708282734125 / 295147905179352825856)"
  unfolding pow_f64_def
  by (subst f64_normal[where e = "- 69" and k = 6593416565468250])
     (simp_all add: pow2_def round_half_even_def power_divide)

lemma init_p6: "pow_f64 (6965567423666367 / 18014398509481984) 6 = Some (7706375073579181 / 2305843009213693952)"
  unfolding pow_f64_def
  by (subst f64_normal[where e = "- 61" and k = 7706375073579181])
     (simp_all add: pow2_def round_half_even_def power_divide)

lemma init_d: "sub_f64 (3296708282734125 / 295147905179352825856) (7706375073579181 / 2305843009213693952) = Some (- (7680619540120321 / 2305843009213693952))"
  unfolding sub_f64_def
  by (subst f64_normal[where e = "- 61" and k = 7680619540120321])
     (simp_all add: pow2_def round_half_even_def power_divide)

lemma init_k: "mul_f64 4 1 = Some 4"
  unfolding mul_f64_def
  by (subst f64_normal[where e = "- 50" and k = 4503599627370496])
     (simp_all add: pow2_def round_half_even_def power_divide)

lemma init_shift: "mul_f64 4 (- (7680619540120321 / 2305843009213693952)) = Some (- (7680619540120321 / 576460752303423488))"
  unfolding mul_f64_def
  by (subst f64_normal[where e = "- 59" and k = 7680619540120321])
     (simp_all add: pow2_def round_half_even_def power_divide)

lemma forward_recip: "div_f64 1 6 = Some (6004799503160661 / 36028797018963968)"
  unfolding div_f64_def
  by (subst f64_normal[where e = "- 55" and k = 6004799503160661])
     (simp_all add: pow2_def round_half_even_def power_divide)

lemma forward_q: "mul_f64 (6004799503160661 / 36028797018963968) (5224175567749775 / 2251799813685248) = Some (3482783711833183 / 9007199254740992)"
  unfolding mul_f64_def
  by (subst f64_normal[where e = "- 54" and k = 6965567423666366])
     (simp_all add: pow2_def round_half_even_def power_divide)

lemma forward_p12: "pow_f64 (3482783711833183 / 9007199254740992) 12 = Some (6593416565468239 / 590295810358705651712)"
  unfolding pow_f64_def
  by (subst f64_normal[where e = "- 69" and k = 6593416565468239])
     (simp_all add: pow2_def round_half_even_def power_divide)

lemma forward_p6: "pow_f64 (3482783711833183 / 9007199254740992) 6 = Some (7706375073579175 / 2305843009213693952)"
  unfolding pow_f64_def
  by (subst f64_normal[where e = "- 61" and k = 7706375073579175])
     (simp_all add: pow2_def round_half_even_def power_divide)

lemma forward_d: "sub_f64 (6593416565468239 / 590295810358705651712) (7706375073579175 / 2305843009213693952) = Some (- (7680619540120315 / 2305843009213693952))"
  unfolding sub_f64_def
  by (subst f64_normal[where e = "- 61" and k = 7680619540120315])
     (simp_all add: pow2_def round_half_even_def power_divide)

lemma forward_e: "mul_f64 4 (- (7680619540120315 / 2305843009213693952)) = Some (- (7680619540120315 / 576460752303423488))"
  unfolding mul_f64_def
  by (subst f64_normal[where e = "- 59" and k = 7680619540120315])
     (simp_all add: pow2_def round_half_even_def power_divide)

lemma forward_res: "sub_f64 (- (7680619540120315 / 576460752303423488)) (- (7680619540120321 / 576460752303423488)) = Some (3 / 288230376151711744)"
  unfolding sub_f64_def
  by (subst f64_normal[where e = "- 109" and k = 6755399441055744])
     (simp_all add: pow2_def round_half_even_def power_divide)

text \<open>
  The claim as stated fails in binary64. For \<open>sigma = 2.32\<close>, \<open>epsilon = 1.0\<close> and cutoff
  \<open>6.0\<close> the constructor stores the shift \<open>- 7680619540120321 / 2 ^ 59\<close>, computed from
  the quotient \<open>2.32 / 6.0\<close>; for a pair at separation \<open>6.0\<close>, \<open>forward\<close> computes the
  quotient as \<open>(1 / 6.0) * 2.32\<close>, one unit in the last place smaller, and the pair
  contributes \<open>3 / 2 ^ 58\<close>, about \<open>1.04e-17\<close>, not zero.
\<close>

theorem shift_not_exact_in_binary64:
  "f64 (232 / 100) = Some (5224175567749775 / 2 ^ 51)
   \<and> combine_f64 6 \<lparr>p_sigma = 5224175567749775 / 2 ^ 51, p_epsilon = 1\<rparr>
         \<lparr>p_sigma = 5224175567749775 / 2 ^ 51, p_epsilon = 1\<rparr>
       = Some (Inr (5224175567749775 / 2 ^ 51, 1, - (7680619540120321 / 2 ^ 59)))
   \<and> pair_energy_f64 (5224175567749775 / 2 ^ 51) 1 (- (7680619540120321 / 2 ^ 59)) 6
       = Some (3 / 2 ^ 58)
   \<and> pair_energy_f64 (5224175567749775 / 2 ^ 51) 1 (- (7680619540120321 / 2 ^ 59)) 6
       \<noteq> Some 0"
proof -
  have literal: "f64 (232 / 100) = Some (5224175567749775 / 2 ^ 51)"
    using f64_literal by simp
  have table: "combine_f64 6 \<lparr>p_sigma = 5224175567749775 / 2 ^ 51, p_epsilon = 1\<rparr>
         \<lparr>p_sigma = 5224175567749775 / 2 ^ 51, p_epsilon = 1\<rparr>
       = Some (Inr (5224175567749775 / 2 ^ 51, 1, - (7680619540120321 / 2 ^ 59)))"
    by (simp add: combine_f64_def f64_sqrt_one init_sum init_sigma init_prod init_q init_p12 init_p6 init_d init_k
        init_shift)
  have pair: "pair_energy_f64 (5224175567749775 / 2 ^ 51) 1 (- (7680619540120321 / 2 ^ 59)) 6
       = Some (3 / 2 ^ 58)"
    by (simp add: pair_energy_f64_def init_k forward_recip forward_q forward_p12 forward_p6 forward_d forward_e forward_res)
  from pair have nonzero:
    "pair_energy_f64 (5224175567749775 / 2 ^ 51) 1 (- (7680619540120321 / 2 ^ 59)) 6 \<noteq> Some 0"
    by simp
  from literal table pair nonzero show ?thesis by blast
qed

section \<open>The energy as a sum of pair terms\<close>

lemma displacement_spec: "displacement pos_i pos_j S cell_m = spec_displacement pos_i pos_j S cell_m"
proof -
  obtain x1 y1 z1 x2 y2 z2 where p: "pos_i = (x1, y1, z1)" "pos_j = (x2, y2, z2)"
    by (metis prod_cases3)
  obtain na nb nc where s: "S = (na, nb, nc)" by (metis prod_cases3)
  obtain a1 a2 a3 b1 b2 b3 c1 c2 c3 where
    m: "cell_m = ((a1, a2, a3), (b1, b2, b3), (c1, c2, c3))"
    by (metis prod_cases3)
  show ?thesis by (simp add: p s m displacement_def)
qed

lemma sqrt_dot_norm: "sqrt (dot d d) = euclidean_norm d"
  by (cases d) (simp add: power2_eq_square)

lemma pair_distance_spec:
  "pair_distance pos cell_m (i, j, S) = euclidean_norm (spec_displacement (pos ! i) (pos ! j) S cell_m)"
  by (simp add: Let_def displacement_spec sqrt_dot_norm)

lemma lj_lookup_None_iff:
  assumes "LennardJones_init c ps = Inr pot"
  shows "lj_lookup pot a b = None \<longleftrightarrow> dict_get ps a = None \<or> dict_get ps b = None"
proof
  assume n: "lj_lookup pot a b = None"
  show "dict_get ps a = None \<or> dict_get ps b = None"
  proof (rule ccontr)
    assume "\<not> (dict_get ps a = None \<or> dict_get ps b = None)"
    then obtain p_i p_j where "dict_get ps a = Some p_i" and "dict_get ps b = Some p_j"
      by auto
    from init_entry_complete[OF assms this] n show False
      by (auto simp: lj_lookup_def)
  qed
next
  assume "dict_get ps a = None \<or> dict_get ps b = None"
  then show "lj_lookup pot a b = None"
    by (auto simp: lj_lookup_eq[OF assms] split: option.splits)
qed

lemma lj_lookup_spec:
  assumes "LennardJones_init c ps = Inr pot"
    and "dict_get ps a = Some p_i" and "dict_get ps b = Some p_j"
  shows "c \<noteq> 0 \<and> lj_lookup pot a b = Some (spec_sigma p_i p_j, spec_epsilon p_i p_j, spec_shift c p_i p_j)"
proof -
  from init_entry_complete[OF assms] obtain entry where
    l: "lj_lookup pot a b = Some entry" and e: "combine c p_i p_j = Inr entry"
    by (auto simp: lj_lookup_def)
  obtain sigma epsilon shift where t: "entry = (sigma, epsilon, shift)" by (cases entry)
  from combine_InrD[OF e[unfolded t]] l t show ?thesis
    by (simp add: spec_shift_def lennard_jones_def)
qed

lemma pair_term_in_range:
  assumes "i < length sp" "j < length sp" "i < length pos" "j < length pos"
  shows "pair_term pot sp pos cell_m (i, j, S) =
           (case lj_lookup pot (sp ! i) (sp ! j) of
              None \<Rightarrow> Inl KeyError
            | Some (sigma, epsilon, shift) \<Rightarrow>
                Inr (scalar_sub (e_ij sigma epsilon (pair_distance pos cell_m (i, j, S))) (Num shift)))"
  using assms by (auto simp: lj_lookup_def Let_def split: option.splits)

lemma pair_term_spec:
  assumes init: "LennardJones_init c ps = Inr pot"
    and r: "readable_pair ps sys pair"
    and d: "pair_distance (positions sys) (cell sys) pair \<noteq> 0"
  shows "pair_term pot (species sys) (positions sys) (cell sys) pair
           = Inr (Num (spec_term c ps sys pair))"
proof -
  obtain i j S where p: "pair = (i, j, S)" by (metis prod_cases3)
  from r p obtain p_i p_j where
    rng: "i < length (species sys)" "j < length (species sys)"
         "i < length (positions sys)" "j < length (positions sys)" and
    pi: "dict_get ps (species sys ! i) = Some p_i" and
    pj: "dict_get ps (species sys ! j) = Some p_j"
    by auto
  from lj_lookup_spec[OF init pi pj] have
    l: "lj_lookup pot (species sys ! i) (species sys ! j)
          = Some (spec_sigma p_i p_j, spec_epsilon p_i p_j, spec_shift c p_i p_j)" by simp
  have d': "euclidean_norm (spec_displacement (positions sys ! i) (positions sys ! j) S (cell sys)) \<noteq> 0"
    using d unfolding p pair_distance_spec .
  have "pair_term pot (species sys) (positions sys) (cell sys) (i, j, S)
          = Inr (scalar_sub (e_ij (spec_sigma p_i p_j) (spec_epsilon p_i p_j)
                   (pair_distance (positions sys) (cell sys) (i, j, S)))
                 (Num (spec_shift c p_i p_j)))"
    by (simp only: pair_term_in_range[OF rng] l option.case prod.case)
  also have "\<dots> = Inr (Num (spec_term c ps sys (i, j, S)))"
    using d' by (simp add: pair_distance_spec pi pj e_ij_def spec_pair_energy_def
        lennard_jones_def Let_def del: pair_distance.simps)
  finally show ?thesis by (simp only: p)
qed

lemma pair_loop_spec:
  assumes init: "LennardJones_init c ps = Inr pot"
    and "\<forall>pair \<in> set pairs. readable_pair ps sys pair
            \<and> pair_distance (positions sys) (cell sys) pair \<noteq> 0"
  shows "pair_loop pot (species sys) (positions sys) (cell sys) pairs (Num t)
           = Inr (Num (t + sum_list (map (spec_term c ps sys) pairs)))"
  using assms(2)
proof (induction pairs arbitrary: t)
  case Nil
  then show ?case by simp
next
  case (Cons pair pairs)
  from Cons.prems have
    "pair_term pot (species sys) (positions sys) (cell sys) pair = Inr (Num (spec_term c ps sys pair))"
    using pair_term_spec[OF init] by simp
  moreover from Cons have "pair_loop pot (species sys) (positions sys) (cell sys) pairs
       (Num (t + spec_term c ps sys pair))
       = Inr (Num (t + spec_term c ps sys pair + sum_list (map (spec_term c ps sys) pairs)))"
    by simp
  ultimately show ?case by (simp add: add.assoc)
qed

text \<open>
  Claim C3. When the energy is requested, every listed pair can be read and no pair has
  separation zero, \<open>forward\<close> returns the sum over the neighbours list of the term the
  specification describes: displacement \<open>position[j] - position[i]\<close> plus the cell shift
  as integer multiples of the lattice vectors, \<open>r\<close> its Euclidean norm, and
  \<open>4 * epsilon_ij * ((sigma_ij / r) ^ 12 - (sigma_ij / r) ^ 6) - shift_ij\<close> with the
  Lorentz-Berthelot parameters \<open>sigma_ij = (sigma_i + sigma_j) / 2\<close> and
  \<open>epsilon_ij = sqrt (epsilon_i * epsilon_j)\<close>.
\<close>

theorem forward_is_shifted_lennard_jones_sum:
  assumes "LennardJones_init c ps = Inr pot"
    and "''energy'' \<in> set (outputs opts)"
    and "\<forall>pair \<in> set (neighbors sys). readable_pair ps sys pair
            \<and> pair_distance (positions sys) (cell sys) pair \<noteq> 0"
  shows "LennardJones_forward pot sys opts
           = Inr [''energy'' \<mapsto> energy_block (Num (\<Sum>pair\<leftarrow>neighbors sys. spec_term c ps sys pair))]"
  using pair_loop_spec[OF assms(1) assms(3), of 0] assms(2)
  by (simp add: LennardJones_forward_def Let_def)

lemma example_dict: "dict_get example_parameters 1 = Some \<lparr>p_sigma = 2, p_epsilon = 1\<rparr>"
  "dict_get example_parameters 6 = Some \<lparr>p_sigma = 4, p_epsilon = 1\<rparr>"
  "dict_get example_parameters 99 = None"
  by (simp_all add: dict_get_def example_parameters_def)

theorem forward_is_shifted_lennard_jones_sum_witness:
  "LennardJones_init 2 example_parameters = Inr example_lj
   \<and> ''energy'' \<in> set (outputs energy_options)
   \<and> neighbors example_system = [(0, 1, (0, 0, 0)), (0, 1, (-1, 0, 0))]
   \<and> readable_pair example_parameters example_system (0, 1, (0, 0, 0))
   \<and> readable_pair example_parameters example_system (0, 1, (-1, 0, 0))
   \<and> pair_distance (positions example_system) (cell example_system) (0, 1, (0, 0, 0)) = 1
   \<and> pair_distance (positions example_system) (cell example_system) (0, 1, (-1, 0, 0)) = 2
   \<and> LennardJones_forward example_lj example_system energy_options
       = Inr [''energy'' \<mapsto> energy_block (Num (2122848 - 484785 / 1024))]"
proof -
  have o: "''energy'' \<in> set (outputs energy_options)" by (simp add: energy_options_def)
  have p: "\<forall>pair \<in> set (neighbors example_system). readable_pair example_parameters example_system pair
         \<and> pair_distance (positions example_system) (cell example_system) pair \<noteq> 0"
    by (simp add: example_system_def example_dict displacement_def)
  have s: "(\<Sum>pair\<leftarrow>neighbors example_system. spec_term 2 example_parameters example_system pair)
            = 2122848 - 484785 / 1024"
    by (simp add: example_system_def example_dict spec_pair_energy_def spec_sigma_def
        spec_epsilon_def spec_shift_def lennard_jones_def power_divide)
  have q: "neighbors example_system = [(0, 1, (0, 0, 0)), (0, 1, (-1, 0, 0))]
     \<and> readable_pair example_parameters example_system (0, 1, (0, 0, 0))
     \<and> readable_pair example_parameters example_system (0, 1, (-1, 0, 0))
     \<and> pair_distance (positions example_system) (cell example_system) (0, 1, (0, 0, 0)) = 1
     \<and> pair_distance (positions example_system) (cell example_system) (0, 1, (-1, 0, 0)) = 2"
    by (simp add: example_system_def example_dict displacement_def)
  from forward_is_shifted_lennard_jones_sum[OF example_init o p] s
  have "LennardJones_forward example_lj example_system energy_options
       = Inr [''energy'' \<mapsto> energy_block (Num (2122848 - 484785 / 1024))]"
    by simp
  with example_init o q show ?thesis by (simp only: simp_thms)
qed

section \<open>Pairs at zero separation\<close>

lemma pair_term_readable:
  assumes init: "LennardJones_init c ps = Inr pot"
    and r: "readable_pair ps sys pair"
  shows "\<exists>t. pair_term pot (species sys) (positions sys) (cell sys) pair = Inr t
             \<and> (pair_distance (positions sys) (cell sys) pair = 0 \<longrightarrow> t = NaN)"
proof -
  obtain i j S where p: "pair = (i, j, S)" by (metis prod_cases3)
  from r p obtain p_i p_j where
    rng: "i < length (species sys)" "j < length (species sys)"
         "i < length (positions sys)" "j < length (positions sys)" and
    pi: "dict_get ps (species sys ! i) = Some p_i" and
    pj: "dict_get ps (species sys ! j) = Some p_j"
    by auto
  from lj_lookup_spec[OF init pi pj] have
    l: "lj_lookup pot (species sys ! i) (species sys ! j)
          = Some (spec_sigma p_i p_j, spec_epsilon p_i p_j, spec_shift c p_i p_j)" by simp
  have "pair_term pot (species sys) (positions sys) (cell sys) (i, j, S)
          = Inr (scalar_sub (e_ij (spec_sigma p_i p_j) (spec_epsilon p_i p_j)
                   (pair_distance (positions sys) (cell sys) (i, j, S)))
                 (Num (spec_shift c p_i p_j)))"
    by (simp only: pair_term_in_range[OF rng] l option.case prod.case)
  then show ?thesis unfolding p by (simp add: e_ij_def del: pair_distance.simps pair_term.simps)
qed

lemma pair_loop_zero_separation:
  assumes init: "LennardJones_init c ps = Inr pot"
    and "\<forall>pair \<in> set pairs. readable_pair ps sys pair"
    and "tot = NaN \<or> (\<exists>pair \<in> set pairs. pair_distance (positions sys) (cell sys) pair = 0)"
  shows "pair_loop pot (species sys) (positions sys) (cell sys) pairs tot = Inr NaN"
  using assms(2,3)
proof (induction pairs arbitrary: tot)
  case Nil
  then show ?case by simp
next
  case (Cons pair pairs)
  from Cons.prems(1) pair_term_readable[OF init, of sys pair] obtain t where
    t: "pair_term pot (species sys) (positions sys) (cell sys) pair = Inr t" and
    z: "pair_distance (positions sys) (cell sys) pair = 0 \<longrightarrow> t = NaN"
    by auto
  from Cons.prems(2) z have
    "scalar_add tot t = NaN
     \<or> (\<exists>pair \<in> set pairs. pair_distance (positions sys) (cell sys) pair = 0)"
    by (cases tot) auto
  with Cons.IH[of "scalar_add tot t"] Cons.prems(1) t show ?case by simp
qed

text \<open>
  Claim C6, as the code has it. The claim asks for a NumericError when a pair has
  separation zero. \<open>forward\<close> has no such check: when every listed pair can be read and
  some pair has separation zero, it raises nothing and returns an energy block whose
  value is nan.
\<close>

theorem zero_separation_returns_nan:
  assumes "LennardJones_init c ps = Inr pot"
    and "''energy'' \<in> set (outputs opts)"
    and "\<forall>pair \<in> set (neighbors sys). readable_pair ps sys pair"
    and "\<exists>pair \<in> set (neighbors sys). pair_distance (positions sys) (cell sys) pair = 0"
  shows "LennardJones_forward pot sys opts = Inr [''energy'' \<mapsto> energy_block NaN]"
  using pair_loop_zero_separation[OF assms(1) assms(3), of "Num 0"] assms(2,4)
  by (simp add: LennardJones_forward_def Let_def)

lemma energy_requested: "''energy'' \<in> set (outputs energy_options)"
  by (simp add: energy_options_def)

theorem zero_separation_returns_nan_witness:
  "LennardJones_init 2 example_parameters = Inr example_lj
   \<and> ''energy'' \<in> set (outputs energy_options)
   \<and> neighbors overlap_system = [(0, 1, (0, 0, 0))]
   \<and> readable_pair example_parameters overlap_system (0, 1, (0, 0, 0))
   \<and> pair_distance (positions overlap_system) (cell overlap_system) (0, 1, (0, 0, 0)) = 0
   \<and> LennardJones_forward example_lj overlap_system energy_options
         = Inr [''energy'' \<mapsto> energy_block NaN]"
proof -
  have r: "\<forall>pair \<in> set (neighbors overlap_system). readable_pair example_parameters overlap_system pair"
    by (simp add: overlap_system_def example_dict)
  have z: "\<exists>pair \<in> set (neighbors overlap_system).
         pair_distance (positions overlap_system) (cell overlap_system) pair = 0"
    by (simp add: overlap_system_def zero_cell_def displacement_def)
  have q: "neighbors overlap_system = [(0, 1, (0, 0, 0))]
     \<and> readable_pair example_parameters overlap_system (0, 1, (0, 0, 0))
     \<and> pair_distance (positions overlap_system) (cell overlap_system) (0, 1, (0, 0, 0)) = 0"
    by (simp add: overlap_system_def zero_cell_def displacement_def example_dict)
  from zero_separation_returns_nan[OF example_init energy_requested r z]
    example_init energy_requested q
  show ?thesis by (simp only: simp_thms)
qed

text \<open>
  The claim as stated fails on two atoms at the same position: the pair has separation
  zero and the evaluation returns a record, not an error.
\<close>

theorem zero_separation_no_error:
  "pair_distance (positions overlap_system) (cell overlap_system) (0, 1, (0, 0, 0)) = 0
   \<and> (0, 1, (0, 0, 0)) \<in> set (neighbors overlap_system)
   \<and> LennardJones_forward example_lj overlap_system energy_options
         = Inr [''energy'' \<mapsto> energy_block NaN]"
  by (simp add: overlap_system_def zero_cell_def displacement_def LennardJones_forward_def
      energy_options_def example_lj_def e_ij_def)

section \<open>Unsupported species\<close>

lemma pair_term_supported:
  assumes init: "LennardJones_init c ps = Inr pot"
    and r: "indices_in_range sys pair"
  shows "if unsupported_pair ps sys pair
         then pair_term pot (species sys) (positions sys) (cell sys) pair = Inl KeyError
         else (\<exists>t. pair_term pot (species sys) (positions sys) (cell sys) pair = Inr t)"
proof -
  obtain i j S where p: "pair = (i, j, S)" by (metis prod_cases3)
  from r p have
    rng: "i < length (species sys)" "j < length (species sys)"
         "i < length (positions sys)" "j < length (positions sys)"
    by auto
  have u: "unsupported_pair ps sys (i, j, S)
             \<longleftrightarrow> lj_lookup pot (species sys ! i) (species sys ! j) = None"
    by (simp add: lj_lookup_None_iff[OF init])
  show ?thesis unfolding p u pair_term_in_range[OF rng]
    by (auto split: option.splits)
qed

lemma pair_loop_supported:
  assumes init: "LennardJones_init c ps = Inr pot"
    and "\<forall>pair \<in> set pairs. indices_in_range sys pair"
  shows "if (\<exists>pair \<in> set pairs. unsupported_pair ps sys pair)
         then pair_loop pot (species sys) (positions sys) (cell sys) pairs tot = Inl KeyError
         else (\<exists>tot'. pair_loop pot (species sys) (positions sys) (cell sys) pairs tot
                  = Inr tot')"
  using assms(2)
proof (induction pairs arbitrary: tot)
  case Nil
  then show ?case by simp
next
  case (Cons pair pairs)
  show ?case
  proof (cases "unsupported_pair ps sys pair")
    case True
    with pair_term_supported[OF init, of sys pair] Cons.prems
    have "pair_term pot (species sys) (positions sys) (cell sys) pair = Inl KeyError" by simp
    with True show ?thesis by simp
  next
    case False
    with pair_term_supported[OF init, of sys pair] Cons.prems obtain t where
      t: "pair_term pot (species sys) (positions sys) (cell sys) pair = Inr t" by auto
    from Cons.IH[of "scalar_add tot t"] Cons.prems False t show ?thesis by simp
  qed
qed

text \<open>
  Claim C7, as the code has it. The claim asks for a ConfigurationError raised before
  any pair is evaluated whenever the system holds an atom of an unsupported species.
  \<open>forward\<close> never inspects the atoms themselves: with the energy requested and the
  indices of all listed pairs inside the system, it raises KeyError exactly when some
  listed pair has an atom whose species is missing from the table, and returns an
  energy block otherwise.
\<close>

theorem unsupported_species_lazy_key_error:
  assumes "LennardJones_init c ps = Inr pot"
    and "''energy'' \<in> set (outputs opts)"
    and "\<forall>pair \<in> set (neighbors sys). indices_in_range sys pair"
  shows "if (\<exists>pair \<in> set (neighbors sys). unsupported_pair ps sys pair)
         then LennardJones_forward pot sys opts = Inl KeyError
         else (\<exists>tot. LennardJones_forward pot sys opts
                  = Inr [''energy'' \<mapsto> energy_block tot])"
proof (cases "\<exists>pair \<in> set (neighbors sys). unsupported_pair ps sys pair")
  case True
  with pair_loop_supported[OF assms(1) assms(3), of "Num 0"]
  have "pair_loop pot (species sys) (positions sys) (cell sys) (neighbors sys) (Num 0)
          = Inl KeyError" by simp
  with True assms(2) show ?thesis by (simp add: LennardJones_forward_def Let_def)
next
  case False
  with pair_loop_supported[OF assms(1) assms(3), of "Num 0"] obtain tot where
    "pair_loop pot (species sys) (positions sys) (cell sys) (neighbors sys) (Num 0)
          = Inr tot" by auto
  with assms(2) have "LennardJones_forward pot sys opts
          = Inr [''energy'' \<mapsto> energy_block tot]"
    by (simp add: LennardJones_forward_def Let_def)
  with False show ?thesis by (simp only: if_False) (rule exI, rule refl)
qed

theorem unsupported_species_lazy_key_error_witness:
  "LennardJones_init 2 example_parameters = Inr example_lj
   \<and> ''energy'' \<in> set (outputs energy_options)
   \<and> neighbors foreign_pair_system = [(0, 1, (0, 0, 0))]
   \<and> indices_in_range foreign_pair_system (0, 1, (0, 0, 0))
   \<and> unsupported_pair example_parameters foreign_pair_system (0, 1, (0, 0, 0))
   \<and> LennardJones_forward example_lj foreign_pair_system energy_options = Inl KeyError"
proof -
  have r: "\<forall>pair \<in> set (neighbors foreign_pair_system). indices_in_range foreign_pair_system pair"
    by (simp add: foreign_pair_system_def)
  have u: "\<exists>pair \<in> set (neighbors foreign_pair_system).
         unsupported_pair example_parameters foreign_pair_system pair"
    by (simp add: foreign_pair_system_def example_dict)
  have q: "neighbors foreign_pair_system = [(0, 1, (0, 0, 0))]
     \<and> indices_in_range foreign_pair_system (0, 1, (0, 0, 0))
     \<and> unsupported_pair example_parameters foreign_pair_system (0, 1, (0, 0, 0))"
    by (simp add: foreign_pair_system_def example_dict)
  from unsupported_species_lazy_key_error[OF example_init energy_requested r] u
  have "LennardJones_forward example_lj foreign_pair_system energy_options = Inl KeyError"
    by simp
  with example_init energy_requested q show ?thesis by (simp only: simp_thms)
qed

text \<open>
  The claim as stated fails on a system with an atom of species 99 that is in no pair:
  the evaluation returns the energy 0 and raises nothing.
\<close>

theorem unsupported_species_not_detected:
  "99 \<in> set (species foreign_system) \<and> lj_params example_lj 99 = None
   \<and> LennardJones_forward example_lj foreign_system energy_options
        = Inr [''energy'' \<mapsto> energy_block (Num 0)]"
  by (simp add: foreign_system_def example_lj_def LennardJones_forward_def energy_options_def)

section \<open>Requested outputs, selected atoms and the composite model\<close>

text \<open>
  Claim C5. When \<open>"energy"\<close> is not among the requested outputs, both the Lennard-Jones
  module and the wrapper return the empty mapping, for every system (also one whose
  pairs could not be evaluated), and the wrapper's log of calls to the learned model is
  unchanged: the collaborator is not invoked.
\<close>

theorem no_energy_requested_returns_empty:
  assumes "''energy'' \<notin> set (outputs opts)"
  shows "LennardJones_forward pot sys opts = Inr Map.empty
         \<and> ExportWrapper_forward w sys opts calls = (Inr Map.empty, calls)"
  using assms by (simp add: LennardJones_forward_def ExportWrapper_forward_def)

theorem no_energy_requested_returns_empty_witness:
  "''energy'' \<notin> set (outputs forces_options)
   \<and> LennardJones_forward example_lj foreign_pair_system forces_options = Inr Map.empty
   \<and> ExportWrapper_forward raising_wrapper foreign_pair_system forces_options []
        = (Inr Map.empty, [])"
proof -
  have h: "''energy'' \<notin> set (outputs forces_options)" by (simp add: forces_options_def)
  from no_energy_requested_returns_empty[OF h, of example_lj foreign_pair_system raising_wrapper "[]"] h
  show ?thesis by simp
qed

text \<open>
  Claim C10. Two run options that request the same outputs and differ only in
  \<open>selected_atoms\<close> give the same result of \<open>LennardJones.forward\<close>.
\<close>

theorem lj_ignores_selected_atoms:
  assumes "outputs opts1 = outputs opts2"
  shows "LennardJones_forward pot sys opts1 = LennardJones_forward pot sys opts2"
  using assms by (simp add: LennardJones_forward_def Let_def)

lemma example_forward:
  "LennardJones_forward example_lj example_system energy_options
       = Inr [''energy'' \<mapsto> energy_block (Num (2122848 - 484785 / 1024))]"
  by (simp add: LennardJones_forward_def energy_options_def example_system_def example_lj_def
      displacement_def e_ij_def power_divide)

theorem lj_ignores_selected_atoms_witness:
  "outputs selected_options = outputs energy_options
   \<and> selected_atoms selected_options \<noteq> selected_atoms energy_options
   \<and> ''energy'' \<in> set (outputs selected_options)
   \<and> LennardJones_forward example_lj example_system selected_options
       = Inr [''energy'' \<mapsto> energy_block (Num (2122848 - 484785 / 1024))]"
proof -
  have h: "outputs selected_options = outputs energy_options"
    by (simp add: selected_options_def energy_options_def)
  from lj_ignores_selected_atoms[OF h, of example_lj example_system] h example_forward
  show ?thesis by (simp add: selected_options_def energy_options_def)
qed

text \<open>
  Claim C2. When the energy is requested, the wrapper's energy is the Lennard-Jones
  energy, which is the same for every value \<open>sel\<close> of \<open>selected_atoms\<close> and so is taken
  over all atoms, plus the value the learned model returns for the selected samples;
  the learned model is called once, with the samples made from \<open>selected_atoms\<close>, and
  with \<open>None\<close> when \<open>selected_atoms\<close> is \<open>None\<close>.
\<close>

theorem composite_energy_is_baseline_plus_correction:
  assumes "''energy'' \<in> set (outputs opts)"
    and "LennardJones_forward (lj w) sys (opts\<lparr>selected_atoms := sel\<rparr>)
           = Inr [''energy'' \<mapsto> energy_block e_lj]"
    and "nn_model w sys (selected_samples_of (selected_atoms opts)) = Inr [e_nn]"
  shows "ExportWrapper_forward w sys opts calls
           = (Inr [''energy'' \<mapsto> energy_block (scalar_add e_lj e_nn)],
              calls @ [(sys, selected_samples_of (selected_atoms opts))])
         \<and> selected_samples_of None = None"
proof -
  have "LennardJones_forward (lj w) sys opts
          = LennardJones_forward (lj w) sys (opts\<lparr>selected_atoms := sel\<rparr>)"
    by (simp add: LennardJones_forward_def Let_def)
  with assms(2) have "LennardJones_forward (lj w) sys opts
          = Inr [''energy'' \<mapsto> energy_block e_lj]" by simp
  with assms(1,3) show ?thesis
    by (simp add: ExportWrapper_forward_def Let_def reshape_1_1_def energy_block_def
        selected_samples_of_def)
qed

theorem composite_energy_is_baseline_plus_correction_witness:
  "''energy'' \<in> set (outputs selected_options)
   \<and> LennardJones_forward (lj constant_wrapper) example_system
         (selected_options\<lparr>selected_atoms := None\<rparr>)
       = Inr [''energy'' \<mapsto> energy_block (Num (2122848 - 484785 / 1024))]
   \<and> nn_model constant_wrapper example_system
         (selected_samples_of (selected_atoms selected_options)) = Inr [Num 5]
   \<and> ExportWrapper_forward constant_wrapper example_system selected_options []
       = (Inr [''energy'' \<mapsto> energy_block (Num (2122848 - 484785 / 1024 + 5))],
          [(example_system, Some (Labels [''center''] [[1]]))])"
proof -
  have o: "''energy'' \<in> set (outputs selected_options)" by (simp add: selected_options_def)
  have b: "LennardJones_forward (lj constant_wrapper) example_system
         (selected_options\<lparr>selected_atoms := None\<rparr>)
       = Inr [''energy'' \<mapsto> energy_block (Num (2122848 - 484785 / 1024))]"
    using example_forward
    by (simp add: constant_wrapper_def selected_options_def energy_options_def)
  have n: "nn_model constant_wrapper example_system
         (selected_samples_of (selected_atoms selected_options)) = Inr [Num 5]"
    by (simp add: constant_wrapper_def)
  from composite_energy_is_baseline_plus_correction[OF o b n, of "[]"] o b n
  show ?thesis by (simp add: selected_options_def selected_samples_of_def)
qed

text \<open>
  Claim C8, as the code has it. The claim asks for a ComputationError whenever the
  learned model raises or returns a non-scalar or nan value. The wrapper catches and
  checks nothing: an exception of the learned model propagates unchanged, a tensor with
  more or fewer than one element makes \<open>reshape(1, 1)\<close> raise RuntimeError, and a nan value
  is added to the baseline and returned in the energy block.
\<close>

theorem collaborator_failures_propagate:
  assumes "''energy'' \<in> set (outputs opts)"
    and "LennardJones_forward (lj w) sys opts = Inr [''energy'' \<mapsto> energy_block e_lj]"
  shows "(nn_model w sys (selected_samples_of (selected_atoms opts)) = Inl e
            \<longrightarrow> fst (ExportWrapper_forward w sys opts calls) = Inl e)
       \<and> (nn_model w sys (selected_samples_of (selected_atoms opts)) = Inr t \<and> length t \<noteq> 1
            \<longrightarrow> fst (ExportWrapper_forward w sys opts calls) = Inl RuntimeError)
       \<and> (nn_model w sys (selected_samples_of (selected_atoms opts)) = Inr [NaN]
            \<longrightarrow> fst (ExportWrapper_forward w sys opts calls)
                  = Inr [''energy'' \<mapsto> energy_block NaN])"
proof (intro conjI impI)
  assume "nn_model w sys (selected_samples_of (selected_atoms opts)) = Inl e"
  with assms show "fst (ExportWrapper_forward w sys opts calls) = Inl e"
    by (simp add: ExportWrapper_forward_def Let_def)
next
  assume a: "nn_model w sys (selected_samples_of (selected_atoms opts)) = Inr t \<and> length t \<noteq> 1"
  then have "reshape_1_1 t = Inl RuntimeError"
    by (cases t) (auto simp: reshape_1_1_def split: list.splits)
  with assms a show "fst (ExportWrapper_forward w sys opts calls) = Inl RuntimeError"
    by (simp add: ExportWrapper_forward_def Let_def)
next
  assume "nn_model w sys (selected_samples_of (selected_atoms opts)) = Inr [NaN]"
  with assms show "fst (ExportWrapper_forward w sys opts calls)
                  = Inr [''energy'' \<mapsto> energy_block NaN]"
    by (cases e_lj) (simp_all add: ExportWrapper_forward_def Let_def reshape_1_1_def energy_block_def)
qed

theorem collaborator_failures_propagate_witness:
  "''energy'' \<in> set (outputs energy_options)
   \<and> LennardJones_forward example_lj example_system energy_options
       = Inr [''energy'' \<mapsto> energy_block (Num (2122848 - 484785 / 1024))]
   \<and> nn_model raising_wrapper example_system None = Inl (OtherError ''descriptor failed'')
   \<and> fst (ExportWrapper_forward raising_wrapper example_system energy_options [])
       = Inl (OtherError ''descriptor failed'')
   \<and> nn_model vector_wrapper example_system None = Inr [Num 1, Num 2]
   \<and> fst (ExportWrapper_forward vector_wrapper example_system energy_options [])
       = Inl RuntimeError
   \<and> nn_model nan_wrapper example_system None = Inr [NaN]
   \<and> fst (ExportWrapper_forward nan_wrapper example_system energy_options [])
       = Inr [''energy'' \<mapsto> energy_block NaN]"
proof -
  have s: "selected_samples_of (selected_atoms energy_options) = None"
    by (simp add: selected_samples_of_def energy_options_def)
  have b1: "LennardJones_forward (lj raising_wrapper) example_system energy_options
       = Inr [''energy'' \<mapsto> energy_block (Num (2122848 - 484785 / 1024))]"
    using example_forward by (simp add: raising_wrapper_def)
  have b2: "LennardJones_forward (lj vector_wrapper) example_system energy_options
       = Inr [''energy'' \<mapsto> energy_block (Num (2122848 - 484785 / 1024))]"
    using example_forward by (simp add: vector_wrapper_def)
  have b3: "LennardJones_forward (lj nan_wrapper) example_system energy_options
       = Inr [''energy'' \<mapsto> energy_block (Num (2122848 - 484785 / 1024))]"
    using example_forward by (simp add: nan_wrapper_def)
  have n1: "nn_model raising_wrapper example_system None = Inl (OtherError ''descriptor failed'')"
    by (simp add: raising_wrapper_def)
  have n2: "nn_model vector_wrapper example_system None = Inr [Num 1, Num 2]"
    by (simp add: vector_wrapper_def)
  have n3: "nn_model nan_wrapper example_system None = Inr [NaN]"
    by (simp add: nan_wrapper_def)
  from collaborator_failures_propagate[OF energy_requested b1,
      of "OtherError ''descriptor failed''" "[]" "[]"]
    collaborator_failures_propagate[OF energy_requested b2,
      of "OtherError ''descriptor failed''" "[]" "[Num 1, Num 2]"]
    collaborator_failures_propagate[OF energy_requested b3,
      of "OtherError ''descriptor failed''" "[]" "[]"]
    energy_requested example_forward n1 n2 n3 s
  show ?thesis by simp
qed

text \<open>
  The claim as stated fails on a learned model that returns nan: the wrapper returns a
  record.
\<close>

theorem nan_correction_is_returned:
  "nn_model nan_wrapper example_system (selected_samples_of (selected_atoms energy_options))
      = Inr [NaN]
   \<and> fst (ExportWrapper_forward nan_wrapper example_system energy_options [])
      = Inr [''energy'' \<mapsto> energy_block NaN]"
  using example_forward
  by (simp add: nan_wrapper_def ExportWrapper_forward_def energy_options_def
      selected_samples_of_def reshape_1_1_def energy_block_def)

end
